theory Spec2Isabelle
  imports Complex_Main "HOL-Library.Multiset" "HOL-Library.Char_ord" "HOL-Library.List_Lexorder"
    "HOL-Library.AList"
begin

section \<open>Values shared by the pipeline\<close>

text \<open>
  A Python float is either the NaN sentinel or a finite number. Finite numbers are the
  exact reals: rounding is not modelled, only where NaN arises and where it is caught.
  Timestamps (pandas \<open>Timestamp\<close>, built with \<open>unit="ms"\<close>) are integers counting
  milliseconds, a \<open>Timedelta\<close> is a difference of two of them, and NaT is \<open>None\<close>.
  Every event carries a timestamp, and the range that pandas can represent (about 292
  years on either side of 1970) is not modelled.
\<close>

datatype pyfloat = NaN | Fin real

datatype error = KeyError | ValueError | TypeError

definition isnan :: "pyfloat \<Rightarrow> bool" where
  "isnan x = (case x of NaN \<Rightarrow> True | Fin _ \<Rightarrow> False)"

definition nan_to_zero :: "pyfloat \<Rightarrow> pyfloat" where
  \<comment> \<open>\<open>if np.isnan(v): v = 0.0\<close>\<close>
  "nan_to_zero x = (if isnan x then Fin 0 else x)"

definition ms_per_day :: int where
  "ms_per_day = 86400000"

definition dropna :: "'a option list \<Rightarrow> 'a list" where
  "dropna xs = List.map_filter (\<lambda>x. x) xs"

definition unique :: "'a list \<Rightarrow> 'a list" where
  \<comment> \<open>\<open>Series.unique()\<close>: the distinct values in order of first appearance\<close>
  "unique xs = rev (remdups (rev xs))"

definition nunique :: "'a list \<Rightarrow> nat" where
  "nunique xs = length (remdups xs)"

definition list_max :: "('a::linorder) list \<Rightarrow> 'a option" where
  \<comment> \<open>\<open>Series.max()\<close>; NaT/NaN on an empty series\<close>
  "list_max xs = (case xs of [] \<Rightarrow> None | x # r \<Rightarrow> Some (fold max r x))"

definition list_min :: "('a::linorder) list \<Rightarrow> 'a option" where
  "list_min xs = (case xs of [] \<Rightarrow> None | x # r \<Rightarrow> Some (fold min r x))"

definition series_mean :: "real list \<Rightarrow> pyfloat" where
  \<comment> \<open>\<open>Series.mean()\<close>: NaN on an empty series\<close>
  "series_mean xs = (if xs = [] then NaN else Fin (sum_list xs / real (length xs)))"

definition series_median :: "real list \<Rightarrow> pyfloat" where
  "series_median xs =
     (let s = sort xs; n = length s in
      if n = 0 then NaN
      else if odd n then Fin (s ! (n div 2))
      else Fin ((s ! (n div 2 - 1) + s ! (n div 2)) / 2))"

definition series_std :: "real list \<Rightarrow> pyfloat" where
  \<comment> \<open>\<open>Series.std(ddof=0)\<close>: the population standard deviation\<close>
  "series_std xs =
     (if xs = [] then NaN
      else let n = real (length xs); m = sum_list xs / n in
           Fin (sqrt (sum_list (map (\<lambda>x. (x - m)\<^sup>2) xs) / n)))"

section \<open>Event log and configuration\<close>

record event =
  ts :: int
  userId :: string
  sessionId :: int
  page :: string
  itemInSession :: int
  level :: "string option"
  length_sec :: "real option"
  artist :: "string option"
  song :: "string option"
  gender :: "string option"
  location :: "string option"
  registration :: "int option"

record FeatureConfig =
  lookback_days :: int
  min_events_per_user :: int
  min_sessions_per_user :: int
  include_gender :: bool
  include_level :: bool
  include_location :: bool

definition CHURN_EVENT :: string where
  "CHURN_EVENT = ''Cancellation Confirmation''"

section \<open>features.py\<close>

text \<open>
  The event frame is the list of its rows, with the columns of a cleaned log all present.
  \<open>sort_values\<close> is a stable sort by the key; the order pandas gives to rows of equal
  key is left open by its default algorithm, and no statement below depends on it.
\<close>

text \<open>
  One row of the feature table: the \<open>snapshot\<close> dictionary of \<open>build_user_features\<close>.
  A key that the function sets only under a condition is an option, \<open>None\<close> when the key
  is left out. The index column \<open>userId\<close> is the field \<open>row_userId\<close>.
\<close>

record snapshot =
  row_userId :: string
  label_ts :: int
  churned :: nat
  num_events :: nat
  num_sessions :: nat
  num_songs :: nat
  num_errors :: nat
  num_add_friend :: nat
  num_add_playlist :: nat
  num_roll_advert :: nat
  num_thumb_up :: nat
  num_thumb_down :: nat
  avg_items_per_session :: pyfloat
  std_items_per_session :: pyfloat
  total_listening_minutes :: pyfloat
  event_rate_per_hour :: pyfloat
  distinct_artists :: nat
  distinct_songs :: nat
  avg_session_minutes :: pyfloat
  median_session_minutes :: pyfloat
  std_session_minutes :: pyfloat
  paid_event_ratio :: pyfloat
  gender_M :: "nat option"
  gender_F :: "nat option"
  current_level_paid :: "nat option"
  num_locations :: "nat option"
  account_age_days :: "pyfloat option"
  active_days :: pyfloat

definition groupby_sessionId :: "event list \<Rightarrow> (int \<times> event list) list" where
  \<comment> \<open>\<open>events.groupby("sessionId")\<close>: one group per key, keys ascending, rows in frame order\<close>
  "groupby_sessionId events =
     map (\<lambda>s. (s, filter (\<lambda>e. sessionId e = s) events)) (sort (remdups (map sessionId events)))"

definition groupby_userId :: "event list \<Rightarrow> (string \<times> event list) list" where
  "groupby_userId events =
     map (\<lambda>u. (u, filter (\<lambda>e. userId e = u) events)) (sort (remdups (map userId events)))"

definition ts_span :: "event list \<Rightarrow> int option" where
  \<comment> \<open>\<open>events["ts"].max() - events["ts"].min()\<close> in milliseconds; NaT on an empty frame\<close>
  "ts_span events =
     (case (list_max (map ts events), list_min (map ts events)) of
        (Some hi, Some lo) \<Rightarrow> Some (hi - lo)
      | _ \<Rightarrow> None)"

definition session_durations :: "event list \<Rightarrow> real list" where
  \<comment> \<open>\<open>(grouped.max() - grouped.min()).dt.total_seconds() / 60.0\<close>; a group is never
      empty, so every span is defined\<close>
  "session_durations events =
     List.map_filter
       (\<lambda>(s, g). map_option (\<lambda>d. real_of_int d / 1000 / 60) (ts_span g))
       (groupby_sessionId events)"

definition session_stats :: "event list \<Rightarrow> pyfloat \<times> pyfloat \<times> pyfloat" where
  "session_stats events =
     (if events = [] then (Fin 0, Fin 0, Fin 0)
      else let durations = session_durations events in
        if durations = [] then (Fin 0, Fin 0, Fin 0)
        else let mean_val = series_mean durations;
                 median_val = series_median durations;
                 std_val = (if length durations > 1 then series_std durations else Fin 0)
             in (nan_to_zero mean_val, nan_to_zero median_val, nan_to_zero std_val))"

definition event_rate :: "event list \<Rightarrow> pyfloat" where
  "event_rate events =
     (case ts_span events of
        None \<Rightarrow> Fin 0
      | Some d \<Rightarrow>
          (let timespan = real_of_int d / 1000 / 3600 in
           if timespan \<le> 0 then Fin (real (length events))
           else Fin (real (length events) / timespan)))"

definition safe_ratio :: "real \<Rightarrow> real \<Rightarrow> pyfloat" where
  "safe_ratio numerator denominator =
     (if denominator = 0 then Fin 0 else Fin (numerator / denominator))"

definition count_page :: "string \<Rightarrow> event list \<Rightarrow> nat" where
  \<comment> \<open>\<open>int((user_events["page"] == p).sum())\<close>\<close>
  "count_page p events = length (filter (\<lambda>e. page e = p) events)"

definition session_item_counts :: "event list \<Rightarrow> real list" where
  \<comment> \<open>\<open>user_events.groupby("sessionId")["itemInSession"].max()\<close>\<close>
  "session_item_counts events =
     List.map_filter
       (\<lambda>(s, g). map_option real_of_int (list_max (map itemInSession g)))
       (groupby_sessionId events)"

definition last_value :: "'a list \<Rightarrow> 'a option" where
  \<comment> \<open>\<open>xs[-1] if len(xs) else None\<close>\<close>
  "last_value xs = (if xs = [] then None else Some (last xs))"

definition flag :: "bool \<Rightarrow> nat" where
  "flag b = (if b then 1 else 0)"

definition churn_cutoff :: "event list \<Rightarrow> (bool \<times> int \<times> event list) option" where
  \<comment> \<open>The sort, the churn mask and the cutoff of one user's group: whether the user churned,
      \<open>cutoff_ts\<close>, and the events kept. \<open>None\<close> stands for an empty group, which
      \<open>groupby\<close> never yields.\<close>
  "churn_cutoff user_events =
     (let sorted_events = sort_key ts user_events in
      case list_max (map ts sorted_events) of
        None \<Rightarrow> None
      | Some latest \<Rightarrow>
          (case filter (\<lambda>e. page e = CHURN_EVENT) sorted_events of
             [] \<Rightarrow> Some (False, latest, sorted_events)
           | c # _ \<Rightarrow> Some (True, ts c, filter (\<lambda>e. ts e < ts c) sorted_events)))"

definition lookback_window :: "FeatureConfig \<Rightarrow> int \<Rightarrow> event list \<Rightarrow> event list" where
  "lookback_window feature_config cutoff_ts user_events =
     (if lookback_days feature_config \<noteq> 0
      then filter (\<lambda>e. ts e \<ge> cutoff_ts - lookback_days feature_config * ms_per_day) user_events
      else user_events)"

definition working_subset ::
  "FeatureConfig \<Rightarrow> event list \<Rightarrow> (bool \<times> int \<times> event list) option" where
  \<comment> \<open>\<open>user_events\<close> as it stands when the thresholds are tested\<close>
  "working_subset feature_config user_events =
     map_option
       (\<lambda>(is_churned, cutoff_ts, kept).
          (is_churned, cutoff_ts, lookback_window feature_config cutoff_ts kept))
       (churn_cutoff user_events)"

definition make_snapshot ::
  "FeatureConfig \<Rightarrow> string \<Rightarrow> bool \<Rightarrow> int \<Rightarrow> event list \<Rightarrow> snapshot" where
  "make_snapshot feature_config user_id is_churned cutoff_ts user_events =
     (let counts = session_item_counts user_events;
          stats = session_stats user_events;
          paid_events = length (filter (\<lambda>e. level e = Some ''paid'') user_events);
          last_gender = last_value (unique (dropna (map gender user_events)));
          last_level = last_value (dropna (map level user_events));
          reg = dropna (map registration user_events)
      in \<lparr> row_userId = user_id,
           label_ts = cutoff_ts,
           churned = flag is_churned,
           num_events = length user_events,
           num_sessions = nunique (map sessionId user_events),
           num_songs = count_page ''NextSong'' user_events,
           num_errors = count_page ''Error'' user_events,
           num_add_friend = count_page ''Add Friend'' user_events,
           num_add_playlist = count_page ''Add to Playlist'' user_events,
           num_roll_advert = count_page ''Roll Advert'' user_events,
           num_thumb_up = count_page ''Thumbs Up'' user_events,
           num_thumb_down = count_page ''Thumbs Down'' user_events,
           avg_items_per_session = series_mean counts,
           std_items_per_session = (if length counts > 1 then series_std counts else Fin 0),
           total_listening_minutes =
             Fin (sum_list (map (\<lambda>e. case length_sec e of None \<Rightarrow> 0 | Some l \<Rightarrow> l) user_events) / 60),
           event_rate_per_hour = event_rate user_events,
           distinct_artists = nunique (dropna (map artist user_events)),
           distinct_songs = nunique (dropna (map song user_events)),
           avg_session_minutes = fst stats,
           median_session_minutes = fst (snd stats),
           std_session_minutes = snd (snd stats),
           paid_event_ratio = safe_ratio (real paid_events) (real (length user_events)),
           gender_M =
             (if include_gender feature_config then Some (flag (last_gender = Some ''M'')) else None),
           gender_F =
             (if include_gender feature_config then Some (flag (last_gender = Some ''F'')) else None),
           current_level_paid =
             (if include_level feature_config then Some (flag (last_level = Some ''paid'')) else None),
           num_locations =
             (if include_location feature_config
              then Some (nunique (dropna (map location user_events))) else None),
           account_age_days =
             (case reg of [] \<Rightarrow> None
              | reg_time # _ \<Rightarrow> Some (Fin (real_of_int ((cutoff_ts - reg_time) div ms_per_day)))),
           active_days =
             (case ts_span user_events of None \<Rightarrow> Fin 0
              | Some d \<Rightarrow> Fin (real_of_int (d div ms_per_day))) \<rparr>)"

definition user_snapshot :: "FeatureConfig \<Rightarrow> string \<Rightarrow> event list \<Rightarrow> snapshot option" where
  \<comment> \<open>The body of the loop over users; \<open>None\<close> is \<open>continue\<close>.\<close>
  "user_snapshot feature_config user_id user_events =
     (case working_subset feature_config user_events of
        None \<Rightarrow> None
      | Some (is_churned, cutoff_ts, kept) \<Rightarrow>
          if int (length kept) < min_events_per_user feature_config then None
          else if int (nunique (map sessionId kept)) < min_sessions_per_user feature_config then None
          else Some (make_snapshot feature_config user_id is_churned cutoff_ts kept))"

definition build_user_features :: "event list \<Rightarrow> FeatureConfig \<Rightarrow> snapshot list" where
  "build_user_features events feature_config =
     sort_key label_ts
       (List.map_filter
          (\<lambda>(user_id, user_events). user_snapshot feature_config user_id user_events)
          (groupby_userId events))"

section \<open>trainer.py: the train/test split\<close>

text \<open>The field \<open>split_method\<close> is \<open>SplitConfig.method\<close>.\<close>

record SplitConfig =
  split_method :: string
  test_ratio :: real
  min_train_users :: int
  temporal_holdout_days :: int

text \<open>Of \<open>TrainingConfig\<close>, the fields the split reads.\<close>

record TrainingConfig =
  random_state :: int
  feature_config :: FeatureConfig
  split_config :: SplitConfig

text \<open>
  \<open>sklearn.model_selection.train_test_split\<close> is a library function: it is a parameter
  of the model, called with the index, \<open>test_size\<close>, \<open>random_state\<close> and the
  \<open>stratify\<close> column, and it returns the two index lists or raises.
\<close>

type_synonym splitter =
  "string list \<Rightarrow> real \<Rightarrow> int \<Rightarrow> nat list \<Rightarrow> error + (string list \<times> string list)"

definition loc :: "snapshot list \<Rightarrow> string list \<Rightarrow> error + snapshot list" where
  \<comment> \<open>\<open>feature_df.loc[labels]\<close>: for each label in turn the rows carrying it; a label that
      is not in the index raises \<open>KeyError\<close>\<close>
  "loc feature_df labels =
     (if list_all (\<lambda>l. l \<in> set (map row_userId feature_df)) labels
      then Inr (concat (map (\<lambda>l. filter (\<lambda>r. row_userId r = l) feature_df) labels))
      else Inl KeyError)"

definition stratified_split ::
  "splitter \<Rightarrow> snapshot list \<Rightarrow> real \<Rightarrow> int \<Rightarrow> error + (snapshot list \<times> snapshot list)" where
  \<comment> \<open>A table without rows is \<open>pd.DataFrame([])\<close>, which has no columns:
      \<open>feature_df["churned"]\<close> raises \<open>KeyError\<close>.\<close>
  "stratified_split train_test_split feature_df ratio seed =
     (if feature_df = [] then Inl KeyError
      else case train_test_split (map row_userId feature_df) ratio seed (map churned feature_df) of
        Inl e \<Rightarrow> Inl e
      | Inr (train_idx, test_idx) \<Rightarrow>
          (case loc feature_df train_idx of
             Inl e \<Rightarrow> Inl e
           | Inr train_df \<Rightarrow>
               (case loc feature_df test_idx of
                  Inl e \<Rightarrow> Inl e
                | Inr test_df \<Rightarrow> Inr (train_df, test_df))))"

definition temporal_split ::
  "splitter \<Rightarrow> snapshot list \<Rightarrow> TrainingConfig \<Rightarrow> error + (snapshot list \<times> snapshot list)" where
  \<comment> \<open>On a table without rows \<open>feature_df["label_ts"]\<close> raises \<open>KeyError\<close>.\<close>
  "temporal_split train_test_split feature_df config =
     (case list_max (map label_ts feature_df) of
        None \<Rightarrow> Inl KeyError
      | Some latest \<Rightarrow>
          (let holdout_days = temporal_holdout_days (split_config config);
               cutoff = latest - holdout_days * ms_per_day;
               train_df = filter (\<lambda>r. label_ts r < cutoff) feature_df;
               test_df = filter (\<lambda>r. label_ts r \<ge> cutoff) feature_df
           in if int (length train_df) < min_train_users (split_config config) \<or> length test_df = 0
              then stratified_split train_test_split feature_df
                     (test_ratio (split_config config)) (random_state config)
              else Inr (train_df, test_df)))"

definition train_split ::
  "splitter \<Rightarrow> snapshot list \<Rightarrow> TrainingConfig \<Rightarrow> error + (snapshot list \<times> snapshot list)" where
  \<comment> \<open>The part of \<open>train\<close> between the feature matrix and the model: the guard against an
      empty table, and the choice of the split.\<close>
  "train_split train_test_split feature_df config =
     (if feature_df = [] then Inl ValueError
      else if split_method (split_config config) = ''temporal''
      then temporal_split train_test_split feature_df config
      else stratified_split train_test_split feature_df
             (test_ratio (split_config config)) (random_state config))"

section \<open>monitoring.py\<close>

definition linspace01 :: "nat \<Rightarrow> real list" where
  \<comment> \<open>\<open>np.linspace(0.0, 1.0, buckets + 1)\<close>\<close>
  "linspace01 buckets =
     (if buckets = 0 then [0] else map (\<lambda>i. real i / real buckets) [0..<buckets + 1])"

definition quantile :: "real list \<Rightarrow> real \<Rightarrow> real" where
  \<comment> \<open>\<open>np.quantile(a, q)\<close> with the default linear interpolation, for a non-empty \<open>a\<close>
      and \<open>0 \<le> q \<le> 1\<close>\<close>
  "quantile a q =
     (let s = sort a; n = length s; h = q * real (n - 1);
          lo = nat \<lfloor>h\<rfloor>; hi = min (lo + 1) (n - 1)
      in s ! lo + (h - real lo) * (s ! hi - s ! lo))"

definition np_unique :: "real list \<Rightarrow> real list" where
  \<comment> \<open>\<open>np.unique\<close>: the distinct values, ascending\<close>
  "np_unique xs = sort (remdups xs)"

definition digitize :: "real \<Rightarrow> real list \<Rightarrow> nat" where
  \<comment> \<open>\<open>np.digitize(x, bins, right=False)\<close> for ascending bins: the \<open>i\<close> with
      \<open>bins[i-1] <= x < bins[i]\<close>\<close>
  "digitize x bins = length (filter (\<lambda>b. b \<le> x) bins)"

definition clip :: "int \<Rightarrow> int \<Rightarrow> int \<Rightarrow> int" where
  "clip a lo hi = min (max a lo) hi"

definition bin_of :: "real list \<Rightarrow> real \<Rightarrow> int" where
  \<comment> \<open>\<open>np.clip(np.digitize(x, breaks, right=False) - 1, 0, len(breaks) - 2)\<close>\<close>
  "bin_of breaks x = clip (int (digitize x breaks) - 1) 0 (int (length breaks) - 2)"

definition bin_ratio :: "int list \<Rightarrow> nat \<Rightarrow> real \<Rightarrow> real" where
  \<comment> \<open>\<open>max((bins == b).sum() / len(values), epsilon)\<close>\<close>
  "bin_ratio bins b epsilon =
     max (real (length (filter (\<lambda>i. i = int b) bins)) / real (length bins)) epsilon"

definition population_stability_index ::
  "real option list \<Rightarrow> real option list \<Rightarrow> nat \<Rightarrow> real \<Rightarrow> pyfloat" where
  \<comment> \<open>For \<open>epsilon > 0\<close> (the default is \<open>1e-6\<close>), where every ratio is positive and the
      logarithm is finite.\<close>
  "population_stability_index expected_series actual_series buckets epsilon =
     (let expected = dropna expected_series; actual = dropna actual_series in
      if expected = [] \<or> actual = [] then NaN
      else
        let quantiles = linspace01 buckets;
            breaks = np_unique (map (quantile expected) quantiles)
        in if length breaks < 2 then Fin 0
           else
             let expected_bins = map (bin_of breaks) expected;
                 actual_bins = map (bin_of breaks) actual
             in Fin (fold
                      (\<lambda>b psi.
                         let exp_ratio = bin_ratio expected_bins b epsilon;
                             act_ratio = bin_ratio actual_bins b epsilon
                         in psi + (act_ratio - exp_ratio) * ln (act_ratio / exp_ratio))
                      [0..<length breaks - 1] 0))"

definition searchsorted :: "real list \<Rightarrow> real \<Rightarrow> nat" where
  \<comment> \<open>\<open>np.searchsorted(a, v, side="right")\<close> for ascending \<open>a\<close>\<close>
  "searchsorted a v = length (filter (\<lambda>x. x \<le> v) a)"

definition kolmogorov_smirnov_statistic :: "real option list \<Rightarrow> real option list \<Rightarrow> pyfloat" where
  \<comment> \<open>\<open>all_values\<close> is not empty where the maximum is taken.\<close>
  "kolmogorov_smirnov_statistic expected_series actual_series =
     (let expected = sort (dropna expected_series); actual = sort (dropna actual_series) in
      if length expected = 0 \<or> length actual = 0 then NaN
      else
        let all_values = sort (np_unique (expected @ actual));
            exp_cdf = map (\<lambda>v. real (searchsorted expected v) / real (length expected)) all_values;
            act_cdf = map (\<lambda>v. real (searchsorted actual v) / real (length actual)) all_values
        in case list_max (map (\<lambda>(e, a). \<bar>e - a\<bar>) (zip exp_cdf act_cdf)) of
             None \<Rightarrow> NaN
           | Some d \<Rightarrow> Fin d)"

text \<open>
  A table for the drift report: its columns in order, each numeric (missing values are
  \<open>None\<close>) or of object dtype.
\<close>

datatype column = Numeric "real option list" | Object "string option list"

type_synonym dataframe = "(string \<times> column) list"

record drift_record =
  feature :: string
  psi :: pyfloat
  ks :: pyfloat

record drift_flags =
  flag_psi :: bool
  flag_ks :: bool

record DriftReport =
  feature_metrics :: "drift_record list"
  aggregate_flags :: drift_flags

definition is_numeric_dtype :: "column \<Rightarrow> bool" where
  "is_numeric_dtype c = (case c of Numeric _ \<Rightarrow> True | Object _ \<Rightarrow> False)"

definition exceeds :: "pyfloat \<Rightarrow> real \<Rightarrow> bool" where
  \<comment> \<open>\<open>not np.isnan(v) and v > threshold\<close>\<close>
  "exceeds v threshold = (case v of NaN \<Rightarrow> False | Fin x \<Rightarrow> x > threshold)"

definition add_record ::
  "string \<Rightarrow> pyfloat \<Rightarrow> pyfloat \<Rightarrow> real \<Rightarrow> real \<Rightarrow> drift_record list \<times> drift_flags
     \<Rightarrow> drift_record list \<times> drift_flags" where
  "add_record col p k psi_threshold ks_threshold acc =
     (case acc of (records, flags) \<Rightarrow>
        (records @ [\<lparr> feature = col, psi = p, ks = k \<rparr>],
         \<lparr> flag_psi = (if exceeds p psi_threshold then True else flag_psi flags),
           flag_ks = (if exceeds k ks_threshold then True else flag_ks flags) \<rparr>))"

fun drift_loop ::
  "dataframe \<Rightarrow> dataframe \<Rightarrow> real \<Rightarrow> real \<Rightarrow> string list
     \<Rightarrow> drift_record list \<times> drift_flags \<Rightarrow> error + (drift_record list \<times> drift_flags)" where
  "drift_loop baseline current psi_threshold ks_threshold [] acc = Inr acc"
| "drift_loop baseline current psi_threshold ks_threshold (col # cols) acc =
     (case map_of current col of
        None \<Rightarrow> drift_loop baseline current psi_threshold ks_threshold cols acc
      | Some cur \<Rightarrow>
          (case map_of baseline col of
             None \<Rightarrow> Inl KeyError
           | Some (Object _) \<Rightarrow> drift_loop baseline current psi_threshold ks_threshold cols acc
           | Some (Numeric expected) \<Rightarrow>
               (case cur of
                  Numeric actual \<Rightarrow>
                    drift_loop baseline current psi_threshold ks_threshold cols
                      (add_record col
                         (population_stability_index expected actual 10 (1 / 10 ^ 6))
                         (kolmogorov_smirnov_statistic expected actual)
                         psi_threshold ks_threshold acc)
                | Object values \<Rightarrow>
                    \<comment> \<open>strings reach the numeric code only when a value is present\<close>
                    (if dropna expected = [] \<or> dropna values = []
                     then drift_loop baseline current psi_threshold ks_threshold cols
                            (add_record col NaN NaN psi_threshold ks_threshold acc)
                     else Inl TypeError))))"

definition sort_by_psi_descending :: "drift_record list \<Rightarrow> drift_record list" where
  \<comment> \<open>\<open>sort_values("psi", ascending=False)\<close>: NaN rows last\<close>
  "sort_by_psi_descending records =
     sort_key (\<lambda>r. case psi r of Fin x \<Rightarrow> - x | NaN \<Rightarrow> 0) (filter (\<lambda>r. \<not> isnan (psi r)) records)
     @ filter (\<lambda>r. isnan (psi r)) records"

definition default_feature_columns :: "dataframe \<Rightarrow> string list" where
  "default_feature_columns baseline = map fst (filter (\<lambda>(col, c). is_numeric_dtype c) baseline)"

definition compute_data_drift_report ::
  "dataframe \<Rightarrow> dataframe \<Rightarrow> string list option \<Rightarrow> real \<Rightarrow> real \<Rightarrow> error + DriftReport" where
  \<comment> \<open>\<open>pd.DataFrame([])\<close> has no column \<open>psi\<close>: sorting it raises \<open>KeyError\<close>.\<close>
  "compute_data_drift_report baseline current feature_columns psi_threshold ks_threshold =
     (let columns = (case feature_columns of
                       None \<Rightarrow> default_feature_columns baseline
                     | Some cols \<Rightarrow> cols)
      in case drift_loop baseline current psi_threshold ks_threshold columns
                ([], \<lparr> flag_psi = False, flag_ks = False \<rparr>) of
           Inl e \<Rightarrow> Inl e
         | Inr (records, flags) \<Rightarrow>
             if records = [] then Inl KeyError
             else Inr \<lparr> feature_metrics = sort_by_psi_descending records,
                        aggregate_flags = flags \<rparr>)"





section \<open>Sample inputs\<close>

text \<open>
  Concrete event logs, configurations and tables on which the functions are evaluated.
  \<open>hold_out_first\<close> is a stand-in for the library's \<open>train_test_split\<close> there: it
  refuses an index of fewer than two labels and otherwise holds out the first label.
\<close>

definition sample_event :: "int \<Rightarrow> string \<Rightarrow> string option \<Rightarrow> event" where
  "sample_event t p g =
     \<lparr> ts = t, userId = ''u1'', sessionId = 1, page = p, itemInSession = 0, level = None,
       length_sec = None, artist = None, song = None, gender = g, location = None,
       registration = None \<rparr>"

definition sample_config :: "int \<Rightarrow> int \<Rightarrow> int \<Rightarrow> FeatureConfig" where
  "sample_config lookback min_events min_sessions =
     \<lparr> lookback_days = lookback, min_events_per_user = min_events,
       min_sessions_per_user = min_sessions, include_gender = True, include_level = True,
       include_location = False \<rparr>"

definition scenario_log :: "event list" where
  "scenario_log =
     [sample_event 0 ''NextSong'' None, sample_event 600000 ''NextSong'' None,
      sample_event 1200000 ''Cancellation Confirmation'' None]"

definition sample_row :: "string \<Rightarrow> int \<Rightarrow> nat \<Rightarrow> snapshot" where
  "sample_row u t c =
     \<lparr> row_userId = u, label_ts = t, churned = c, num_events = 1, num_sessions = 1,
       num_songs = 1, num_errors = 0, num_add_friend = 0, num_add_playlist = 0,
       num_roll_advert = 0, num_thumb_up = 0, num_thumb_down = 0,
       avg_items_per_session = Fin 0, std_items_per_session = Fin 0,
       total_listening_minutes = Fin 0, event_rate_per_hour = Fin 1, distinct_artists = 0,
       distinct_songs = 0, avg_session_minutes = Fin 0, median_session_minutes = Fin 0,
       std_session_minutes = Fin 0, paid_event_ratio = Fin 0, gender_M = None, gender_F = None,
       current_level_paid = None, num_locations = None, account_age_days = None,
       active_days = Fin 0 \<rparr>"


definition sample_training_config :: "int \<Rightarrow> TrainingConfig" where
  "sample_training_config min_train =
     \<lparr> random_state = 42, feature_config = sample_config 30 10 1,
       split_config = \<lparr> split_method = ''temporal'', test_ratio = 1 / 5, min_train_users = min_train,
                        temporal_holdout_days = 14 \<rparr> \<rparr>"


definition cancel_only_log :: "event list" where
  "cancel_only_log = [sample_event 0 ''Cancellation Confirmation'' None]"

definition gender_log :: "event list" where
  "gender_log =
     [sample_event 0 ''NextSong'' (Some ''M''), sample_event 1000 ''NextSong'' (Some ''F''),
      sample_event 2000 ''NextSong'' (Some ''M'')]"

definition text_only_table :: dataframe where
  "text_only_table = [(''userId'', Object [Some ''u1'', Some ''u2''])]"

definition baseline_table :: dataframe where
  "baseline_table = [(''num_events'', Numeric [Some 3, Some 3]), (''userId'', Object [Some ''u1'', Some ''u2''])]"

definition renamed_table :: dataframe where
  "renamed_table = [(''events'', Numeric [Some 3, Some 4])]"

section \<open>The feature builder: cutoff, thresholds and the scenario\<close>

lemma list_max_Max:
  assumes "xs \<noteq> []"
  shows "list_max xs = Some (Max (set xs))"
proof (cases xs)
  case Nil with assms show ?thesis by simp
next
  case (Cons a r)
  then show ?thesis using Max.set_eq_fold[of a r] by (simp add: list_max_def)
qed


lemma sorted_filter_hd:
  assumes "sorted (map f xs)" "filter P xs = c # rest" "x \<in> set xs" "P x"
  shows "f c \<le> f x"
proof -
  have "sorted (map f (filter P xs))" using assms(1) by (rule sorted_filter)
  moreover have "x \<in> set (filter P xs)" using assms(3,4) by simp
  ultimately show ?thesis using assms(2) by auto
qed

lemma churn_cutoff_churned:
  assumes "churn_cutoff evs = Some (True, cutoff, kept)"
  shows "set kept \<subseteq> set evs" "\<forall>e\<in>set kept. ts e < cutoff"
    "\<exists>c\<in>set evs. page c = CHURN_EVENT \<and> ts c = cutoff"
    "\<forall>c\<in>set evs. page c = CHURN_EVENT \<longrightarrow> cutoff \<le> ts c"
proof -
  let ?s = "sort_key ts evs"
  from assms obtain c rest where f: "filter (\<lambda>e. page e = CHURN_EVENT) ?s = c # rest"
    and cutoff: "cutoff = ts c" and kept: "kept = filter (\<lambda>e. ts e < ts c) ?s"
    by (auto simp: churn_cutoff_def Let_def split: option.splits list.splits)
  show "set kept \<subseteq> set evs" using kept by auto
  show "\<forall>e\<in>set kept. ts e < cutoff" using kept cutoff by auto
  have "c \<in> set (filter (\<lambda>e. page e = CHURN_EVENT) ?s)" using f by simp
  then show "\<exists>c\<in>set evs. page c = CHURN_EVENT \<and> ts c = cutoff" using cutoff by auto
  show "\<forall>c\<in>set evs. page c = CHURN_EVENT \<longrightarrow> cutoff \<le> ts c"
  proof (intro ballI impI)
    fix x assume "x \<in> set evs" "page x = CHURN_EVENT"
    then show "cutoff \<le> ts x"
      using sorted_filter_hd[of ts ?s "\<lambda>e. page e = CHURN_EVENT" c rest x] f cutoff by simp
  qed
qed

lemma in_set_map_filter:
  "y \<in> set (List.map_filter f xs) \<longleftrightarrow> (\<exists>x\<in>set xs. f x = Some y)"
  by (induction xs) (auto split: option.splits)

lemma lookback_window_subset: "set (lookback_window cfg cutoff evs) \<subseteq> set evs"
  by (auto simp: lookback_window_def)

lemma working_subset_cases:
  assumes "working_subset cfg evs = Some (ch, cutoff, ws)"
  obtains kept where "churn_cutoff evs = Some (ch, cutoff, kept)" "ws = lookback_window cfg cutoff kept"
  using assms by (auto simp: working_subset_def)

text \<open>
  The working subset in the words of the specification: the events of the user that lie
  strictly before the cutoff when the user churned, and within the lookback window when
  one is set. For a user who did not churn the cutoff is the latest timestamp.
\<close>

lemma churn_cutoff_mset:
  assumes "churn_cutoff evs = Some (ch, cutoff, kept)"
  shows "ch \<longleftrightarrow> (\<exists>c\<in>set evs. page c = CHURN_EVENT)"
    and "mset kept = {#e \<in># mset evs. ch \<longrightarrow> ts e < cutoff#}"
    and "\<not> ch \<Longrightarrow> cutoff = Max (ts ` set evs)"
proof -
  let ?s = "sort_key ts evs"
  let ?c = "filter (\<lambda>e. page e = CHURN_EVENT) ?s"
  from assms have ne: "evs \<noteq> []"
    by (auto simp: churn_cutoff_def list_max_def split: option.splits list.splits)
  then have "?s \<noteq> []" by (metis length_sort list.size(3) length_0_conv)
  then have lm: "list_max (map ts ?s) = Some (Max (ts ` set evs))"
    using list_max_Max[of "map ts ?s"] by simp
  have "ch \<longleftrightarrow> ?c \<noteq> []"
    using assms by (auto simp: churn_cutoff_def Let_def split: option.splits list.splits)
  also have "\<dots> \<longleftrightarrow> (\<exists>c\<in>set evs. page c = CHURN_EVENT)"
    by (auto simp: filter_empty_conv)
  finally show "ch \<longleftrightarrow> (\<exists>c\<in>set evs. page c = CHURN_EVENT)" .
  have f: "mset (filter P ?s) = filter_mset P (mset evs)" for P
    by simp
  show "mset kept = {#e \<in># mset evs. ch \<longrightarrow> ts e < cutoff#}"
  proof (cases ?c)
    case Nil
    then have "kept = ?s" "\<not> ch" using assms lm
      by (simp_all add: churn_cutoff_def Let_def)
    then show ?thesis by simp
  next
    case (Cons c rest)
    then have "kept = filter (\<lambda>e. ts e < cutoff) ?s" "ch" using assms lm
      by (auto simp: churn_cutoff_def Let_def)
    then show ?thesis using f[of "\<lambda>e. ts e < cutoff"] by simp
  qed
  show "cutoff = Max (ts ` set evs)" if "\<not> ch"
    using assms that lm
    by (auto simp: churn_cutoff_def Let_def split: list.splits)
qed

lemma working_subset_mset:
  assumes "working_subset cfg evs = Some (ch, cutoff, ws)"
  shows "mset ws = {#e \<in># mset evs. (ch \<longrightarrow> ts e < cutoff)
            \<and> (lookback_days cfg \<noteq> 0 \<longrightarrow> cutoff - lookback_days cfg * ms_per_day \<le> ts e)#}"
proof -
  from assms obtain kept where k: "churn_cutoff evs = Some (ch, cutoff, kept)"
    and ws: "ws = lookback_window cfg cutoff kept"
    by (rule working_subset_cases)
  note m = churn_cutoff_mset(2)[OF k]
  show ?thesis
  proof (cases "lookback_days cfg = 0")
    case True
    then show ?thesis using m ws by (simp add: lookback_window_def)
  next
    case False
    then have "mset ws = {#e \<in># mset kept. cutoff - lookback_days cfg * ms_per_day \<le> ts e#}"
      using ws by (simp add: lookback_window_def)
    then show ?thesis using False unfolding m by (simp add: filter_filter_mset conj_commute)
  qed
qed

lemma build_user_features_mem:
  assumes "r \<in> set (build_user_features events cfg)"
  obtains u where "u \<in> userId ` set events"
    "user_snapshot cfg u (filter (\<lambda>e. userId e = u) events) = Some r"
  using assms
  by (auto simp: build_user_features_def groupby_userId_def in_set_map_filter)

lemma user_snapshot_Some:
  assumes "user_snapshot cfg u evs = Some r"
  obtains ch cutoff ws where "working_subset cfg evs = Some (ch, cutoff, ws)"
    "r = make_snapshot cfg u ch cutoff ws"
    "\<not> int (length ws) < min_events_per_user cfg"
    "\<not> int (nunique (map sessionId ws)) < min_sessions_per_user cfg"
  using assms by (auto simp: user_snapshot_def split: option.splits if_splits)

lemma make_snapshot_sel [simp]:
  "row_userId (make_snapshot cfg u ch cutoff ws) = u"
  "label_ts (make_snapshot cfg u ch cutoff ws) = cutoff"
  "churned (make_snapshot cfg u ch cutoff ws) = flag ch"
  "num_events (make_snapshot cfg u ch cutoff ws) = length ws"
  by (simp_all add: make_snapshot_def Let_def)

text \<open>
  Claim C1 (no leakage). Every output row of \<open>build_user_features\<close> marked churned was
  computed by \<open>make_snapshot\<close> from the working subset of its user, and every event of
  that subset belongs to the user and has a timestamp strictly below the row's
  \<open>label_ts\<close>. The \<open>label_ts\<close> is the timestamp of a "Cancellation Confirmation" event of
  the user, and no such event of the user is earlier. This holds for every event log and
  every configuration, with or without a lookback window.
\<close>

theorem no_leakage:
  assumes "r \<in> set (build_user_features events cfg)" and "churned r = 1"
  shows "\<exists>ws. working_subset cfg (filter (\<lambda>e. userId e = row_userId r) events)
                = Some (True, label_ts r, ws)
            \<and> r = make_snapshot cfg (row_userId r) True (label_ts r) ws
            \<and> (\<forall>e\<in>set ws. e \<in> set events \<and> userId e = row_userId r \<and> ts e < label_ts r)
            \<and> (\<exists>c\<in>set events. userId c = row_userId r \<and> page c = CHURN_EVENT \<and> ts c = label_ts r)
            \<and> (\<forall>c\<in>set events. userId c = row_userId r \<and> page c = CHURN_EVENT
                   \<longrightarrow> label_ts r \<le> ts c)"
proof -
  from assms(1) obtain u where u: "user_snapshot cfg u (filter (\<lambda>e. userId e = u) events) = Some r"
    by (rule build_user_features_mem)
  let ?g = "filter (\<lambda>e. userId e = u) events"
  from u obtain ch cutoff ws where w: "working_subset cfg ?g = Some (ch, cutoff, ws)"
    and r: "r = make_snapshot cfg u ch cutoff ws"
    by (rule user_snapshot_Some)
  have ru: "row_userId r = u" and rl: "label_ts r = cutoff" using r by simp_all
  have ch: "ch" using assms(2) r by (simp add: flag_def split: if_splits)
  from w obtain kept where k: "churn_cutoff ?g = Some (ch, cutoff, kept)"
    and ws: "ws = lookback_window cfg cutoff kept"
    by (rule working_subset_cases)
  note cc = churn_cutoff_churned[OF k[unfolded ch[THEN eqTrueI]]]
  have sub: "set ws \<subseteq> set kept" using ws lookback_window_subset by simp
  show ?thesis
  proof (intro exI[of _ ws] conjI)
    show "working_subset cfg (filter (\<lambda>e. userId e = row_userId r) events) = Some (True, label_ts r, ws)"
      using w ch ru rl by simp
    show "r = make_snapshot cfg (row_userId r) True (label_ts r) ws"
      using r ch ru rl by simp
    show "\<forall>e\<in>set ws. e \<in> set events \<and> userId e = row_userId r \<and> ts e < label_ts r"
      using sub cc(1,2) ru rl by auto
    show "\<exists>c\<in>set events. userId c = row_userId r \<and> page c = CHURN_EVENT \<and> ts c = label_ts r"
      using cc(3) ru rl by auto
    show "\<forall>c\<in>set events. userId c = row_userId r \<and> page c = CHURN_EVENT \<longrightarrow> label_ts r \<le> ts c"
      using cc(4) ru rl by auto
  qed
qed

text \<open>
  Claim C2 (threshold filtering). A user whose working subset (after the churn cutoff and
  the lookback restriction) has fewer events than \<open>min_events_per_user\<close>, or fewer distinct
  session ids than \<open>min_sessions_per_user\<close>, has no row in the output of
  \<open>build_user_features\<close>.
\<close>

theorem threshold_filtering:
  assumes "working_subset cfg (filter (\<lambda>e. userId e = u) events) = Some (ch, cutoff, ws)"
    and "int (length ws) < min_events_per_user cfg
         \<or> int (card (sessionId ` set ws)) < min_sessions_per_user cfg"
  shows "u \<notin> row_userId ` set (build_user_features events cfg)"
proof
  assume "u \<in> row_userId ` set (build_user_features events cfg)"
  then obtain r where r: "r \<in> set (build_user_features events cfg)" and ur: "u = row_userId r"
    by auto
  from r obtain u' where u': "user_snapshot cfg u' (filter (\<lambda>e. userId e = u') events) = Some r"
    by (rule build_user_features_mem)
  from u' obtain ch' cutoff' ws' where w: "working_subset cfg (filter (\<lambda>e. userId e = u') events) = Some (ch', cutoff', ws')"
    and rr: "r = make_snapshot cfg u' ch' cutoff' ws'"
    and t1: "\<not> int (length ws') < min_events_per_user cfg"
    and t2: "\<not> int (nunique (map sessionId ws')) < min_sessions_per_user cfg"
    by (rule user_snapshot_Some)
  have "u' = u" using rr ur by simp
  then have "ws' = ws" using w assms(1) by simp
  moreover have "nunique (map sessionId ws) = card (sessionId ` set ws)"
    by (simp add: nunique_def length_remdups_card_conv)
  ultimately show False using t1 t2 assms(2) by simp
qed

lemma filter_perm_single:
  assumes "mset ys = mset xs" "filter P ys = [k]"
  shows "filter P xs = [k]"
proof -
  have "mset (filter P xs) = mset (filter P ys)"
    using assms(1) by (metis mset_filter)
  then have "mset (filter P xs) = {#k#}" using assms(2) by simp
  then show ?thesis by (simp only: mset_single_iff)
qed

lemma sort_key_three:
  assumes "mset evs = {#e1, e2, e3#}" "f e1 < f e2" "f e2 < f e3"
  shows "sort_key f evs = [e1, e2, e3]"
proof (rule properties_for_sort_key)
  show "mset [e1, e2, e3] = mset evs" using assms(1) by simp
  show "sorted (map f [e1, e2, e3])" using assms(2,3) by auto
  fix k assume k: "k \<in> set [e1, e2, e3]"
  have one: "filter (\<lambda>x. f k = f x) [e1, e2, e3] = [k]"
    using k assms(2,3) by auto
  have "filter (\<lambda>x. f k = f x) evs = [k]"
    by (rule filter_perm_single[OF _ one]) (simp add: assms(1))
  then show "filter (\<lambda>x. f k = f x) [e1, e2, e3] = filter (\<lambda>x. f k = f x) evs"
    using one by simp
qed

lemma churn_cutoff_sorted: "sort_key ts evs = sort_key ts evs' \<Longrightarrow> churn_cutoff evs = churn_cutoff evs'"
  by (simp add: churn_cutoff_def)

lemma scenario_cutoff:
  assumes "ts e1 = 0" "page e1 = ''NextSong''"
    and "ts e2 = 600000" "page e2 = ''NextSong''"
    and "ts e3 = 1200000" "page e3 = ''Cancellation Confirmation''"
  shows "churn_cutoff [e1, e2, e3] = Some (True, 1200000, [e1, e2])"
  using assms by (simp add: churn_cutoff_def list_max_def CHURN_EVENT_def)

lemma scenario_window:
  assumes "ts e1 = 0" "ts e2 = 600000" "lookback_days cfg = 0 \<or> lookback_days cfg \<ge> 1"
  shows "lookback_window cfg 1200000 [e1, e2] = [e1, e2]"
proof (cases "lookback_days cfg = 0")
  case True then show ?thesis by (simp add: lookback_window_def)
next
  case False
  with assms(3) have "1200000 - lookback_days cfg * ms_per_day \<le> 0"
    by (simp add: ms_per_day_def)
  then show ?thesis using assms(1,2) by (simp add: lookback_window_def)
qed

lemma remdups_constant:
  "xs \<noteq> [] \<Longrightarrow> \<forall>x\<in>set xs. x = a \<Longrightarrow> remdups xs = [a]"
proof (induction xs)
  case Nil then show ?case by simp
next
  case (Cons x xs) then show ?case by (cases xs) auto
qed

lemma scenario_rows:
  assumes m: "mset evs = {#e1, e2, e3#}"
    and e1: "ts e1 = 0" "userId e1 = ''u1''" "page e1 = ''NextSong''" "sessionId e1 = s"
    and e2: "ts e2 = 600000" "userId e2 = ''u1''" "page e2 = ''NextSong''" "sessionId e2 = s"
    and e3: "ts e3 = 1200000" "userId e3 = ''u1''" "page e3 = ''Cancellation Confirmation''"
    and cfg: "min_events_per_user cfg = 1" "min_sessions_per_user cfg \<le> 1"
      "lookback_days cfg = 0 \<or> lookback_days cfg \<ge> 1"
  shows "build_user_features evs cfg = [make_snapshot cfg ''u1'' True 1200000 [e1, e2]]"
proof -
  have "set_mset (mset evs) = {e1, e2, e3}" unfolding m by simp
  then have set_evs: "set evs = {e1, e2, e3}" by simp
  have ne: "evs \<noteq> []" using set_evs by auto
  have users: "\<forall>e\<in>set evs. userId e = ''u1''" using set_evs e1(2) e2(2) e3(2) by simp
  have keys: "remdups (map userId evs) = [''u1'']"
    by (rule remdups_constant) (use ne users in auto)
  have grp: "filter (\<lambda>e. userId e = ''u1'') evs = evs" using users by simp
  have groups: "groupby_userId evs = [(''u1'', evs)]"
    by (simp add: groupby_userId_def keys grp)
  have "sort_key ts evs = [e1, e2, e3]"
    using m e1(1) e2(1) e3(1) by (intro sort_key_three) simp_all
  then have "sort_key ts evs = sort_key ts [e1, e2, e3]"
    using e1(1) e2(1) e3(1) by simp
  then have "churn_cutoff evs = churn_cutoff [e1, e2, e3]" by (rule churn_cutoff_sorted)
  then have cc: "churn_cutoff evs = Some (True, 1200000, [e1, e2])"
    using scenario_cutoff[of e1 e2 e3] e1 e2 e3 by simp
  have ws: "working_subset cfg evs = Some (True, 1200000, [e1, e2])"
    using cc scenario_window[of e1 e2 cfg] e1(1) e2(1) cfg(3) by (simp add: working_subset_def)
  have sess: "nunique (map sessionId [e1, e2]) = 1" using e1(4) e2(4) by (simp add: nunique_def)
  have "user_snapshot cfg ''u1'' evs = Some (make_snapshot cfg ''u1'' True 1200000 [e1, e2])"
    using cfg(1,2) by (simp add: user_snapshot_def ws sess del: list.map)
  then show ?thesis by (simp add: build_user_features_def groups)
qed



lemma sample_event_sel [simp]:
  "ts (sample_event t p g) = t" "userId (sample_event t p g) = ''u1''"
  "sessionId (sample_event t p g) = 1" "page (sample_event t p g) = p"
  "gender (sample_event t p g) = g" "level (sample_event t p g) = None"
  "itemInSession (sample_event t p g) = 0" "registration (sample_event t p g) = None"
  by (simp_all add: sample_event_def)

lemma sample_config_sel [simp]:
  "lookback_days (sample_config l e s) = l" "min_events_per_user (sample_config l e s) = e"
  "min_sessions_per_user (sample_config l e s) = s" "include_gender (sample_config l e s)"
  "include_level (sample_config l e s)" "\<not> include_location (sample_config l e s)"
  by (simp_all add: sample_config_def)

lemma scenario_log_rows:
  "build_user_features scenario_log (sample_config l 1 1)
     = [make_snapshot (sample_config l 1 1) ''u1'' True 1200000
          [sample_event 0 ''NextSong'' None, sample_event 600000 ''NextSong'' None]]"
  if "l = 0 \<or> l \<ge> 1"
  unfolding scenario_log_def
  by (rule scenario_rows[of _ "sample_event 0 ''NextSong'' None"
        "sample_event 600000 ''NextSong'' None"
        "sample_event 1200000 ''Cancellation Confirmation'' None" 1])
    (use that in simp_all)


theorem no_leakage_witness:
  "make_snapshot (sample_config 30 1 1) ''u1'' True 1200000
       [sample_event 0 ''NextSong'' None, sample_event 600000 ''NextSong'' None]
     \<in> set (build_user_features scenario_log (sample_config 30 1 1))
   \<and> churned (make_snapshot (sample_config 30 1 1) ''u1'' True 1200000
       [sample_event 0 ''NextSong'' None, sample_event 600000 ''NextSong'' None]) = 1
   \<and> (\<exists>ws. working_subset (sample_config 30 1 1) (filter (\<lambda>e. userId e = ''u1'') scenario_log)
              = Some (True, 1200000, ws)
          \<and> ws \<noteq> []
          \<and> (\<forall>e\<in>set ws. e \<in> set scenario_log \<and> userId e = ''u1'' \<and> ts e < 1200000))"
proof -
  let ?r = "make_snapshot (sample_config 30 1 1) ''u1'' True 1200000
       [sample_event 0 ''NextSong'' None, sample_event 600000 ''NextSong'' None]"
  have rows: "build_user_features scenario_log (sample_config 30 1 1) = [?r]"
    by (rule scenario_log_rows) simp
  then have mem: "?r \<in> set (build_user_features scenario_log (sample_config 30 1 1))" by simp
  have ch: "churned ?r = 1" by (simp add: flag_def)
  from no_leakage[OF mem ch] obtain ws where
    w: "working_subset (sample_config 30 1 1) (filter (\<lambda>e. userId e = ''u1'') scenario_log)
          = Some (True, 1200000, ws)"
    and r: "?r = make_snapshot (sample_config 30 1 1) ''u1'' True 1200000 ws"
    and l: "\<forall>e\<in>set ws. e \<in> set scenario_log \<and> userId e = ''u1'' \<and> ts e < 1200000"
    by auto
  have "num_events ?r = length ws" by (subst r) simp
  then have "ws \<noteq> []" by auto
  with mem ch w l show ?thesis by blast
qed

theorem threshold_filtering_witness:
  "working_subset (sample_config 30 10 1) (filter (\<lambda>e. userId e = ''u1'') scenario_log)
     = Some (True, 1200000, [sample_event 0 ''NextSong'' None, sample_event 600000 ''NextSong'' None])
   \<and> int (length [sample_event 0 ''NextSong'' None, sample_event 600000 ''NextSong'' None]) < 10
   \<and> ''u1'' \<notin> row_userId ` set (build_user_features scenario_log (sample_config 30 10 1))"
proof -
  have w: "working_subset (sample_config 30 10 1) (filter (\<lambda>e. userId e = ''u1'') scenario_log)
     = Some (True, 1200000, [sample_event 0 ''NextSong'' None, sample_event 600000 ''NextSong'' None])"
    by (simp add: scenario_log_def working_subset_def scenario_cutoff scenario_window)
  show ?thesis
    using threshold_filtering[OF w] w by simp
qed


text \<open>
  The feature table has one row per user at most: its index \<open>userId\<close> is unique.
\<close>

lemma user_snapshot_userId: "user_snapshot cfg u evs = Some r \<Longrightarrow> row_userId r = u"
  by (erule user_snapshot_Some) simp

lemma map_filter_keys_distinct:
  assumes "distinct (map fst groups)"
    and "\<And>u evs r. f (u, evs) = Some r \<Longrightarrow> key r = u"
  shows "distinct (map key (List.map_filter f groups))"
  using assms(1)
proof (induction groups)
  case Nil then show ?case by simp
next
  case (Cons g groups)
  obtain u evs where g: "g = (u, evs)" by (cases g)
  have "key r \<in> fst ` set groups" if "r \<in> set (List.map_filter f groups)" for r
  proof -
    from that obtain x where "x \<in> set groups" "f x = Some r" by (auto simp: in_set_map_filter)
    then show ?thesis using assms(2)[of "fst x" "snd x" r] by force
  qed
  then show ?case using Cons g assms(2)[of u evs] by (auto split: option.splits)
qed

lemma build_user_features_unique_index:
  "distinct (map row_userId (build_user_features events cfg))"
proof -
  let ?rows = "List.map_filter (\<lambda>(user_id, user_events). user_snapshot cfg user_id user_events)
      (groupby_userId events)"
  have "distinct (map fst (groupby_userId events))"
    by (simp add: groupby_userId_def comp_def)
  then have "distinct (map row_userId ?rows)"
    by (rule map_filter_keys_distinct) (auto dest: user_snapshot_userId)
  moreover have "mset (map row_userId (sort_key label_ts ?rows)) = mset (map row_userId ?rows)"
    by simp
  ultimately show ?thesis
    unfolding build_user_features_def by (metis mset_eq_imp_distinct_iff)
qed

section \<open>The feature builder on degenerate and changing inputs\<close>

lemma make_snapshot_features:
  "avg_items_per_session (make_snapshot cfg u ch cutoff ws) = series_mean (session_item_counts ws)"
  "gender_M (make_snapshot cfg u ch cutoff ws)
     = (if include_gender cfg
        then Some (flag (last_value (unique (dropna (map gender ws))) = Some ''M'')) else None)"
  "gender_F (make_snapshot cfg u ch cutoff ws)
     = (if include_gender cfg
        then Some (flag (last_value (unique (dropna (map gender ws))) = Some ''F'')) else None)"
  "current_level_paid (make_snapshot cfg u ch cutoff ws)
     = (if include_level cfg
        then Some (flag (last_value (dropna (map level ws)) = Some ''paid'')) else None)"
  by (simp_all add: make_snapshot_def Let_def)

lemma groupby_userId_sample:
  "groupby_userId [sample_event t p g] = [(''u1'', [sample_event t p g])]"
  by (simp add: groupby_userId_def)

lemma cancel_only_rows:
  "build_user_features cancel_only_log (sample_config 30 0 0)
     = [make_snapshot (sample_config 30 0 0) ''u1'' True 0 []]"
  by (simp add: build_user_features_def cancel_only_log_def groupby_userId_sample
      user_snapshot_def working_subset_def churn_cutoff_def list_max_def CHURN_EVENT_def
      lookback_window_def nunique_def)

text \<open>
  Claim C4 (defaults on an empty working subset). With both thresholds 0, the user of a log
  that holds a single "Cancellation Confirmation" event has an empty working subset and
  still gets a row. In that row \<open>avg_items_per_session\<close> is the mean of an empty series,
  which is NaN, and not the default 0.0 that the claim states.
\<close>

theorem empty_subset_mean_is_nan:
  "map row_userId (build_user_features cancel_only_log (sample_config 30 0 0)) = [''u1'']
   \<and> map num_events (build_user_features cancel_only_log (sample_config 30 0 0)) = [0]
   \<and> map avg_items_per_session (build_user_features cancel_only_log (sample_config 30 0 0)) = [NaN]"
  by (simp add: cancel_only_rows)
    (simp add: make_snapshot_features session_item_counts_def groupby_sessionId_def series_mean_def)

lemma gender_log_groups: "groupby_userId gender_log = [(''u1'', gender_log)]"
  by (simp add: groupby_userId_def gender_log_def)

lemma gender_log_subset:
  "working_subset (sample_config 30 1 1) gender_log = Some (False, 2000, gender_log)"
  by (simp add: working_subset_def churn_cutoff_def list_max_def CHURN_EVENT_def
      lookback_window_def gender_log_def ms_per_day_def)

lemma gender_log_rows:
  "build_user_features gender_log (sample_config 30 1 1)
     = [make_snapshot (sample_config 30 1 1) ''u1'' False 2000 gender_log]"
  by (simp add: build_user_features_def gender_log_groups user_snapshot_def gender_log_subset)
    (simp add: gender_log_def nunique_def)

text \<open>
  Claim C5 (point-in-time gender). On a log whose gender values are "M", "F", "M" in
  timestamp order, the last observed value is "M", but the row has \<open>gender_M = 0\<close> and
  \<open>gender_F = 1\<close>: the code takes the last entry of the distinct values in order of first
  appearance, not the last observed value that the claim states.
\<close>

theorem gender_reappearing_value:
  "map gender_M (build_user_features gender_log (sample_config 30 1 1)) = [Some 0]
   \<and> map gender_F (build_user_features gender_log (sample_config 30 1 1)) = [Some 1]
   \<and> last_value (dropna (map gender (sort_key ts gender_log))) = Some ''M''"
  by (simp add: gender_log_rows)
    (simp add: make_snapshot_features gender_log_def unique_def dropna_def last_value_def flag_def)


section \<open>The train/test split\<close>













lemma sample_row_sel [simp]:
  "row_userId (sample_row u t c) = u" "label_ts (sample_row u t c) = t"
  "churned (sample_row u t c) = c"
  by (simp_all add: sample_row_def)



lemma sample_training_config_sel [simp]:
  "random_state (sample_training_config m) = 42"
  "test_ratio (split_config (sample_training_config m)) = 1 / 5"
  "min_train_users (split_config (sample_training_config m)) = m"
  "temporal_holdout_days (split_config (sample_training_config m)) = 14"
  by (simp_all add: sample_training_config_def)









section \<open>Drift statistics\<close>

lemma fold_keep: "fold (\<lambda>b acc. acc) xs a = a"
  by (induction xs) simp_all

text \<open>
  Claim C8 (PSI of a distribution against itself). For every series that holds at least one
  value once the missing ones are dropped, every number of buckets (10 by default) and
  every positive \<open>epsilon\<close> (\<open>1e-6\<close> by default), \<open>population_stability_index X X\<close> is
  exactly 0: both sides fall into the same bins, every term of the sum is a zero difference
  times the logarithm of 1, and a constant series returns 0 before the sum.
\<close>

theorem psi_self_comparison:
  assumes "dropna X \<noteq> []" and "0 < epsilon"
  shows "population_stability_index X X buckets epsilon = Fin 0"
  using assms by (simp add: population_stability_index_def Let_def fold_keep)

theorem psi_self_comparison_witness:
  "dropna [Some 1, None, Some 2, Some (2::real)] \<noteq> [] \<and> (0::real) < 1 / 10 ^ 6
   \<and> population_stability_index [Some 1, None, Some 2, Some 2] [Some 1, None, Some 2, Some 2]
         10 (1 / 10 ^ 6) = Fin 0"
proof -
  have a: "dropna [Some 1, None, Some 2, Some (2::real)] \<noteq> []" by (simp add: dropna_def)
  have b: "(0::real) < 1 / 10 ^ 6" by simp
  show ?thesis using psi_self_comparison[OF a b, of 10] a by simp
qed










lemma drift_loop_no_shared_column:
  "list_all (\<lambda>col. col \<notin> fst ` set current) cols
   \<Longrightarrow> drift_loop baseline current psi_threshold ks_threshold cols acc = Inr acc"
  by (induction cols) (auto simp: map_of_eq_None_iff[symmetric] simp del: map_of_eq_None_iff)

lemma default_feature_columns_empty:
  "list_all (\<lambda>(col, c). \<not> is_numeric_dtype c) baseline \<Longrightarrow> default_feature_columns baseline = []"
  by (induction baseline) (auto simp: default_feature_columns_def)

text \<open>
  Claim C10 (drift report without records). When \<open>feature_columns\<close> is omitted and the
  baseline has no numeric column, or when none of the selected columns is a column of the
  current table, \<open>compute_data_drift_report\<close> collects no record and raises \<open>KeyError\<close>
  on sorting the empty table by \<open>psi\<close>; it does not return an empty report.
\<close>

theorem drift_report_without_records:
  assumes "(feature_columns = None \<and> list_all (\<lambda>(col, c). \<not> is_numeric_dtype c) baseline)
         \<or> list_all (\<lambda>col. col \<notin> fst ` set current)
              (case feature_columns of None \<Rightarrow> default_feature_columns baseline | Some cols \<Rightarrow> cols)"
  shows "compute_data_drift_report baseline current feature_columns psi_threshold ks_threshold
           = Inl KeyError"
proof -
  let ?cols = "case feature_columns of None \<Rightarrow> default_feature_columns baseline | Some cols \<Rightarrow> cols"
  have "list_all (\<lambda>col. col \<notin> fst ` set current) ?cols"
    using assms by (auto simp: default_feature_columns_empty)
  then have "drift_loop baseline current psi_threshold ks_threshold ?cols
               ([], \<lparr> flag_psi = False, flag_ks = False \<rparr>)
             = Inr ([], \<lparr> flag_psi = False, flag_ks = False \<rparr>)"
    by (rule drift_loop_no_shared_column)
  then show ?thesis by (simp add: compute_data_drift_report_def Let_def)
qed

theorem drift_report_without_records_witness:
  "list_all (\<lambda>(col, c). \<not> is_numeric_dtype c) text_only_table
   \<and> compute_data_drift_report text_only_table text_only_table None (1 / 5) (1 / 10) = Inl KeyError
   \<and> list_all (\<lambda>col. col \<notin> fst ` set renamed_table) (default_feature_columns baseline_table)
   \<and> compute_data_drift_report baseline_table renamed_table None (1 / 5) (1 / 10) = Inl KeyError
   \<and> list_all (\<lambda>col. col \<notin> fst ` set renamed_table) [''num_events'']
   \<and> compute_data_drift_report baseline_table renamed_table (Some [''num_events'']) (1 / 5) (1 / 10)
       = Inl KeyError"
proof -
  have a: "list_all (\<lambda>(col, c). \<not> is_numeric_dtype c) text_only_table"
    by (simp add: text_only_table_def is_numeric_dtype_def)
  have b: "list_all (\<lambda>col. col \<notin> fst ` set renamed_table) (default_feature_columns baseline_table)"
    by (simp add: default_feature_columns_def baseline_table_def renamed_table_def is_numeric_dtype_def)
  have c: "list_all (\<lambda>col. col \<notin> fst ` set renamed_table) [''num_events'']"
    by (simp add: renamed_table_def)
  have "compute_data_drift_report text_only_table text_only_table None (1 / 5) (1 / 10) = Inl KeyError"
    by (rule drift_report_without_records) (use a in simp)
  moreover have "compute_data_drift_report baseline_table renamed_table None (1 / 5) (1 / 10) = Inl KeyError"
    by (rule drift_report_without_records) (use b in simp)
  moreover have "compute_data_drift_report baseline_table renamed_table (Some [''num_events'']) (1 / 5) (1 / 10)
       = Inl KeyError"
    by (rule drift_report_without_records) (use c in simp)
  ultimately show ?thesis using a b c by simp
qed

lemma drift_report_shared_column:
  "compute_data_drift_report baseline_table baseline_table None (1 / 5) (1 / 10)
     = Inr \<lparr> feature_metrics = [\<lparr> feature = ''num_events'', psi = Fin 0, ks = Fin 0 \<rparr>],
             aggregate_flags = \<lparr> flag_psi = False, flag_ks = False \<rparr> \<rparr>"
proof -
  have p: "population_stability_index [Some 3, Some 3] [Some 3, Some 3] 10 (1 / 10 ^ 6) = Fin 0"
    by (simp add: population_stability_index_def dropna_def Let_def fold_keep)
  have k: "kolmogorov_smirnov_statistic [Some 3, Some 3] [Some 3, Some 3] = Fin 0"
    by (simp add: kolmogorov_smirnov_statistic_def dropna_def np_unique_def searchsorted_def list_max_def)
  show ?thesis
    using p k
    by (simp add: compute_data_drift_report_def default_feature_columns_def baseline_table_def
        is_numeric_dtype_def add_record_def exceeds_def sort_by_psi_descending_def isnan_def)
qed

end
